theory Spec2Isabelle
  imports Complex_Main "HOL-Library.Sublist"
begin

section \<open>Python string operations used by app.py\<close>

text \<open>
  Strings are lists of characters. The operations below are the ones \<^verbatim>\<open>app.py\<close> applies
  to header values, response bodies and URLs, restricted to ASCII: \<^verbatim>\<open>sub in s\<close>,
  \<^verbatim>\<open>s.split(sep)\<close>, \<^verbatim>\<open>s.lower()\<close>, \<^verbatim>\<open>s.strip()\<close> and \<^verbatim>\<open>int(s)\<close>.
\<close>

text \<open>\<^verbatim>\<open>sub in s\<close>: \<open>sub\<close> occurs somewhere in \<open>s\<close> as a contiguous run.\<close>

fun contains :: "string \<Rightarrow> string \<Rightarrow> bool" where
  "contains sub [] = (sub = [])"
| "contains sub (c # cs) = (prefix sub (c # cs) \<or> contains sub cs)"

text \<open>
  \<^verbatim>\<open>s.split(sep)\<close> for a non-empty separator: the pieces between the non-overlapping
  occurrences of \<open>sep\<close>, scanning from the left. \<open>acc\<close> holds the current piece, reversed.
\<close>

function split_acc :: "string \<Rightarrow> string \<Rightarrow> string \<Rightarrow> string list" where
  "split_acc sep acc [] = [rev acc]"
| "split_acc sep acc (c # cs) =
     (if sep \<noteq> [] \<and> prefix sep (c # cs)
      then rev acc # split_acc sep [] (drop (length sep) (c # cs))
      else split_acc sep (c # acc) cs)"
  by pat_completeness auto
termination
  by (relation "measure (\<lambda>(sep, acc, s). length s)") auto

definition split :: "string \<Rightarrow> string \<Rightarrow> string list" where
  "split s sep = split_acc sep [] s"

text \<open>\<^verbatim>\<open>s.lower()\<close> on ASCII letters; every other character is left as it is.\<close>

definition lower_char :: "char \<Rightarrow> char" where
  "lower_char c =
     (case map_of (zip ''ABCDEFGHIJKLMNOPQRSTUVWXYZ'' ''abcdefghijklmnopqrstuvwxyz'') c of
        None \<Rightarrow> c
      | Some d \<Rightarrow> d)"

definition upper_char :: "char \<Rightarrow> char" where
  "upper_char c =
     (case map_of (zip ''abcdefghijklmnopqrstuvwxyz'' ''ABCDEFGHIJKLMNOPQRSTUVWXYZ'') c of
        None \<Rightarrow> c
      | Some d \<Rightarrow> d)"

definition lower :: "string \<Rightarrow> string" where
  "lower s = map lower_char s"

text \<open>
  \<^verbatim>\<open>int(s)\<close> on a string: surrounding white space is stripped, one optional sign
  follows, then decimal digits, where single underscores may separate digits. Anything
  else raises \<^verbatim>\<open>ValueError\<close>, which is the value \<open>None\<close> here.
\<close>

definition is_space :: "char \<Rightarrow> bool" where
  "is_space c = (let n = (of_char c :: nat) in (9 \<le> n \<and> n \<le> 13) \<or> (28 \<le> n \<and> n \<le> 32))"

definition strip :: "string \<Rightarrow> string" where
  "strip s = rev (dropWhile is_space (rev (dropWhile is_space s)))"

definition is_digit :: "char \<Rightarrow> bool" where
  "is_digit c = (let n = (of_char c :: nat) in 48 \<le> n \<and> n \<le> 57)"

definition digit_val :: "char \<Rightarrow> int" where
  "digit_val c = int (of_char c) - 48"

text \<open>
  \<open>digits acc prev_digit s\<close> reads the digit part: \<open>acc\<close> is the value so far and
  \<open>prev_digit\<close> says whether the previous character was a digit (an underscore is only
  allowed after a digit and before another one).
\<close>

fun digits :: "int \<Rightarrow> bool \<Rightarrow> string \<Rightarrow> int option" where
  "digits acc prev_digit [] = (if prev_digit then Some acc else None)"
| "digits acc prev_digit (c # cs) =
     (if is_digit c then digits (acc * 10 + digit_val c) True cs
      else if c = CHR ''_'' \<and> prev_digit then digits acc False cs
      else None)"

definition py_int :: "string \<Rightarrow> int option" where
  "py_int s =
     (case strip s of
        [] \<Rightarrow> None
      | c # cs \<Rightarrow>
          if c = CHR ''-'' then map_option uminus (digits 0 False cs)
          else if c = CHR ''+'' then digits 0 False cs
          else digits 0 False (c # cs))"

section \<open>Cache status classifier\<close>

text \<open>
  Lines 104 to 139 of \<^verbatim>\<open>check_akamai_cache\<close>: the \<^verbatim>\<open>if\<close>/\<^verbatim>\<open>elif\<close> chain that
  computes \<^verbatim>\<open>cache_hit\<close> and \<^verbatim>\<open>response_time_ms\<close> from the four extracted header
  values. The pair returned is (\<^verbatim>\<open>cache_hit\<close>, \<^verbatim>\<open>response_time_ms\<close>).
\<close>

text \<open>
  The body of the \<^verbatim>\<open>try\<close> of method 3. \<^verbatim>\<open>x_timer.split('VE')[1]\<close> raises
  \<^verbatim>\<open>IndexError\<close> when there is no second piece and \<^verbatim>\<open>int\<close> raises
  \<^verbatim>\<open>ValueError\<close>; both are caught by \<^verbatim>\<open>except (ValueError, IndexError): pass\<close>,
  which leaves \<^verbatim>\<open>cache_hit = 'UNKNOWN'\<close> and \<^verbatim>\<open>response_time_ms = None\<close>.
\<close>

definition ve_part :: "string \<Rightarrow> string option" where
  "ve_part x_timer =
     (case split x_timer ''VE'' of
        _ # p # _ \<Rightarrow> (case split p '','' of q # _ \<Rightarrow> Some q | [] \<Rightarrow> None)
      | _ \<Rightarrow> None)"

definition timing_verdict :: "int \<Rightarrow> string" where
  "timing_verdict response_time_ms =
     (if response_time_ms < 100 then ''HIT (inferred from timing)''
      else if response_time_ms > 500 then ''MISS (inferred from timing)''
      else ''UNKNOWN (timing inconclusive)'')"

definition classify_timing :: "string \<Rightarrow> string \<times> int option" where
  "classify_timing x_timer =
     (case ve_part x_timer of
        None \<Rightarrow> (''UNKNOWN'', None)
      | Some p \<Rightarrow>
          (case py_int p of
             None \<Rightarrow> (''UNKNOWN'', None)
           | Some t \<Rightarrow> (timing_verdict t, Some t)))"

definition classify :: "string \<Rightarrow> string \<Rightarrow> string \<Rightarrow> string \<Rightarrow> string \<times> int option" where
  "classify x_cache x_check_cacheable age x_timer =
     (if contains ''TCP_HIT'' x_cache \<or> contains ''TCP_MEM_HIT'' x_cache then (''HIT'', None)
      else if contains ''TCP_MISS'' x_cache then (''MISS'', None)
      else if contains ''TCP_REFRESH_HIT'' x_cache then (''REFRESH_HIT'', None)
      else if contains ''TCP_REFRESH_MISS'' x_cache then (''REFRESH_MISS'', None)
      else if x_check_cacheable = ''NO'' then (''NOT_CACHEABLE'', None)
      else if age \<noteq> [] \<and> age \<noteq> ''0'' then (''HIT'', None)
      else if x_timer \<noteq> ''NOT_FOUND'' \<and> contains ''VE'' x_timer then classify_timing x_timer
      else (''UNKNOWN'', None))"

section \<open>Regular expressions\<close>

text \<open>
  \<^verbatim>\<open>detect_aem\<close> matches sixteen regular expressions with \<^verbatim>\<open>re.findall\<close> and
  \<^verbatim>\<open>re.search\<close>. The matcher below is a backtracking matcher with the priorities of
  Python's \<^verbatim>\<open>re\<close> module for the constructs those expressions use: literal characters,
  character sets, the dot under \<^verbatim>\<open>re.DOTALL\<close>, greedy \<^verbatim>\<open>*\<close> and \<^verbatim>\<open>+\<close> and lazy
  \<^verbatim>\<open>*?\<close> on a single character, \<^verbatim>\<open>\b\<close>, \<^verbatim>\<open>$\<close>, alternation and one capturing group.
  The flag \<open>ic\<close> is \<^verbatim>\<open>re.IGNORECASE\<close>.
\<close>

datatype atom = Ch char | CSet bool "char list" "(char \<times> char) list" | AnyChar

datatype item0 = One atom | Star atom | Plus atom | LazyStar atom | WordB | Eos

datatype item = I item0 | Alt "item0 list list" | GOpen | GClose

definition in_set :: "char list \<Rightarrow> (char \<times> char) list \<Rightarrow> char \<Rightarrow> bool" where
  "in_set cs rs c =
     (c \<in> set cs \<or>
      list_ex (\<lambda>(lo, hi). (of_char lo :: nat) \<le> of_char c \<and> (of_char c :: nat) \<le> of_char hi) rs)"

text \<open>\<open>CSet neg cs rs\<close> is the set of the characters \<open>cs\<close> and the ranges \<open>rs\<close>, negated when \<open>neg\<close>.\<close>

fun amatch :: "bool \<Rightarrow> atom \<Rightarrow> char \<Rightarrow> bool" where
  "amatch ic (Ch x) c = (if ic then lower_char c = lower_char x else c = x)"
| "amatch ic (CSet neg cs rs) c =
     ((if ic then in_set cs rs (lower_char c) \<or> in_set cs rs (upper_char c)
       else in_set cs rs c) \<noteq> neg)"
| "amatch ic AnyChar c = True"

text \<open>A word character, for \<^verbatim>\<open>\b\<close>; \<open>None\<close> is the start or the end of the string.\<close>

definition is_word :: "char option \<Rightarrow> bool" where
  "is_word x =
     (case x of
        None \<Rightarrow> False
      | Some c \<Rightarrow>
          in_set ''_'' [(CHR ''a'', CHR ''z''), (CHR ''A'', CHR ''Z''), (CHR ''0'', CHR ''9'')] c)"

fun psize :: "item \<Rightarrow> nat" where
  "psize (Alt as) = Suc (sum_list (map (\<lambda>a. Suc (length a)) as))"
| "psize _ = 1"

text \<open>
  \<open>rx_match ic p prev s gs cap\<close> matches the pattern \<open>p\<close> at the start of \<open>s\<close>, where
  \<open>prev\<close> is the character before \<open>s\<close>, \<open>gs\<close> the input at the point where the group
  was opened and \<open>cap\<close> the text of the group. It returns the input left after the match
  and the group's text. An earlier alternative, a longer greedy repetition and a shorter
  lazy one are tried first; the rest of the pattern is the continuation, so a failure
  later on comes back to the next choice.
\<close>

function rx_match ::
  "bool \<Rightarrow> item list \<Rightarrow> char option \<Rightarrow> string \<Rightarrow> string option \<Rightarrow> string option
     \<Rightarrow> (string \<times> string option) option" where
  "rx_match ic [] prev s gs cap = Some (s, cap)"
| "rx_match ic (I (One a) # r) prev [] gs cap = None"
| "rx_match ic (I (One a) # r) prev (c # cs) gs cap =
     (if amatch ic a c then rx_match ic r (Some c) cs gs cap else None)"
| "rx_match ic (I (Star a) # r) prev [] gs cap = rx_match ic r prev [] gs cap"
| "rx_match ic (I (Star a) # r) prev (c # cs) gs cap =
     (if amatch ic a c
      then (case rx_match ic (I (Star a) # r) (Some c) cs gs cap of
              Some m \<Rightarrow> Some m
            | None \<Rightarrow> rx_match ic r prev (c # cs) gs cap)
      else rx_match ic r prev (c # cs) gs cap)"
| "rx_match ic (I (Plus a) # r) prev [] gs cap = None"
| "rx_match ic (I (Plus a) # r) prev (c # cs) gs cap =
     (if amatch ic a c then rx_match ic (I (Star a) # r) (Some c) cs gs cap else None)"
| "rx_match ic (I (LazyStar a) # r) prev [] gs cap = rx_match ic r prev [] gs cap"
| "rx_match ic (I (LazyStar a) # r) prev (c # cs) gs cap =
     (case rx_match ic r prev (c # cs) gs cap of
        Some m \<Rightarrow> Some m
      | None \<Rightarrow>
          if amatch ic a c then rx_match ic (I (LazyStar a) # r) (Some c) cs gs cap else None)"
| "rx_match ic (I WordB # r) prev s gs cap =
     (if is_word prev \<noteq> is_word (case s of [] \<Rightarrow> None | c # _ \<Rightarrow> Some c)
      then rx_match ic r prev s gs cap else None)"
| "rx_match ic (I Eos # r) prev s gs cap =
     (if s = [] \<or> s = [CHR 0x0A] then rx_match ic r prev s gs cap else None)"
| "rx_match ic (Alt [] # r) prev s gs cap = None"
| "rx_match ic (Alt (a # as) # r) prev s gs cap =
     (case rx_match ic (map I a @ r) prev s gs cap of
        Some m \<Rightarrow> Some m
      | None \<Rightarrow> rx_match ic (Alt as # r) prev s gs cap)"
| "rx_match ic (GOpen # r) prev s gs cap = rx_match ic r prev s (Some s) cap"
| "rx_match ic (GClose # r) prev s gs cap =
     rx_match ic r prev s gs
       (case gs of None \<Rightarrow> cap | Some g \<Rightarrow> Some (take (length g - length s) g))"
  by pat_completeness auto
termination
proof -
  have m: "sum_list (map (psize \<circ> I) a) = length a" for a
    by (induction a) auto
  show ?thesis
    by (relation "measures [\<lambda>(ic, p, prev, s, gs, cap). length s,
                            \<lambda>(ic, p, prev, s, gs, cap). sum_list (map psize p)]")
       (auto simp: m)
qed

text \<open>
  \<^verbatim>\<open>re.search\<close>: the match at the leftmost position that has one, as the pair of the
  matched text and the group's text.
\<close>

fun rx_search_from ::
  "bool \<Rightarrow> item list \<Rightarrow> char option \<Rightarrow> string \<Rightarrow> (string \<times> string option) option" where
  "rx_search_from ic p prev [] =
     (case rx_match ic p prev [] None None of
        None \<Rightarrow> None
      | Some (rest, cap) \<Rightarrow> Some ([], cap))"
| "rx_search_from ic p prev (c # cs) =
     (case rx_match ic p prev (c # cs) None None of
        None \<Rightarrow> rx_search_from ic p (Some c) cs
      | Some (rest, cap) \<Rightarrow> Some (take (length (c # cs) - length rest) (c # cs), cap))"

definition re_search :: "bool \<Rightarrow> item list \<Rightarrow> string \<Rightarrow> (string \<times> string option) option" where
  "re_search ic p s = rx_search_from ic p None s"

text \<open>
  \<^verbatim>\<open>re.findall\<close>: the non-overlapping matches from left to right; each one gives its
  group's text when the pattern has a group and the matched text otherwise. \<open>skip\<close> counts
  the characters of the previous match that are still to be passed over.
\<close>

fun rx_findall_from ::
  "bool \<Rightarrow> item list \<Rightarrow> char option \<Rightarrow> string \<Rightarrow> nat \<Rightarrow> string list" where
  "rx_findall_from ic p prev [] skip =
     (if skip = 0
      then (case rx_match ic p prev [] None None of
              None \<Rightarrow> []
            | Some (rest, cap) \<Rightarrow> [case cap of None \<Rightarrow> [] | Some g \<Rightarrow> g])
      else [])"
| "rx_findall_from ic p prev (c # cs) (Suc k) = rx_findall_from ic p (Some c) cs k"
| "rx_findall_from ic p prev (c # cs) 0 =
     (case rx_match ic p prev (c # cs) None None of
        None \<Rightarrow> rx_findall_from ic p (Some c) cs 0
      | Some (rest, cap) \<Rightarrow>
          (case cap of None \<Rightarrow> take (length (c # cs) - length rest) (c # cs) | Some g \<Rightarrow> g)
            # rx_findall_from ic p (Some c) cs (length cs - length rest))"

definition re_findall :: "bool \<Rightarrow> item list \<Rightarrow> string \<Rightarrow> string list" where
  "re_findall ic p s = rx_findall_from ic p None s 0"

text \<open>\<^verbatim>\<open>m.group(1)\<close> of a match object \<open>m\<close>; it is only read when there is a match.\<close>

definition group1 :: "(string \<times> string option) option \<Rightarrow> string" where
  "group1 m = (case m of Some (whole, Some g) \<Rightarrow> g | _ \<Rightarrow> [])"

subsection \<open>The patterns of \<^verbatim>\<open>detect_aem\<close>\<close>

definition lit0 :: "string \<Rightarrow> item0 list" where
  "lit0 s = map (\<lambda>c. One (Ch c)) s"

definition lit :: "string \<Rightarrow> item list" where
  "lit s = map I (lit0 s)"

text \<open>\<^verbatim>\<open>["\']\<close>, \<^verbatim>\<open>[^"\']\<close>, \<^verbatim>\<open>[a-z\-]\<close>, \<^verbatim>\<open>[a-z]\<close> and \<^verbatim>\<open>[^>]\<close>.\<close>

definition quote :: atom where
  "quote = CSet False [CHR 0x22, CHR 0x27] []"

definition not_quote :: atom where
  "not_quote = CSet True [CHR 0x22, CHR 0x27] []"

definition az_dash :: atom where
  "az_dash = CSet False ''-'' [(CHR ''a'', CHR ''z'')]"

definition az :: atom where
  "az = CSet False [] [(CHR ''a'', CHR ''z'')]"

definition not_gt :: atom where
  "not_gt = CSet True ''>'' []"

text \<open>\<^verbatim>\<open>class=["\'][^"\']*\b(cq-[a-z\-]+)\b[^"\']*["\']\<close>\<close>

definition rx_cq_classes :: "item list" where
  "rx_cq_classes =
     lit ''class='' @ [I (One quote), I (Star not_quote), I WordB, GOpen] @ lit ''cq-''
       @ [I (Plus az_dash), GClose, I WordB, I (Star not_quote), I (One quote)]"

text \<open>\<^verbatim>\<open>class=["\'][^"\']*\b(aem-[a-z\-]+)\b[^"\']*["\']\<close>\<close>

definition rx_aem_classes :: "item list" where
  "rx_aem_classes =
     lit ''class='' @ [I (One quote), I (Star not_quote), I WordB, GOpen] @ lit ''aem-''
       @ [I (Plus az_dash), GClose, I WordB, I (Star not_quote), I (One quote)]"

text \<open>\<^verbatim>\<open>(data-cq-[a-z\-]+)=\<close>\<close>

definition rx_data_attrs :: "item list" where
  "rx_data_attrs = [GOpen] @ lit ''data-cq-'' @ [I (Plus az_dash), GClose] @ lit ''=''"

text \<open>\<^verbatim>\<open>data-path=["\'][^"\']*["\']\<close>\<close>

definition rx_data_path :: "item list" where
  "rx_data_path = lit ''data-path='' @ [I (One quote), I (Star not_quote), I (One quote)]"

text \<open>
  \<^verbatim>\<open><!--.*?(adobe experience manager|day cq|/apps/|/libs/|/content/).*?-->\<close>, used with
  \<^verbatim>\<open>re.DOTALL | re.IGNORECASE\<close>
\<close>

definition rx_aem_comments :: "item list" where
  "rx_aem_comments =
     lit ''<!--''
       @ [I (LazyStar AnyChar), GOpen,
          Alt [lit0 ''adobe experience manager'', lit0 ''day cq'', lit0 ''/apps/'',
               lit0 ''/libs/'', lit0 ''/content/''],
          GClose, I (LazyStar AnyChar)]
       @ lit ''-->''"

text \<open>\<^verbatim>\<open>(/etc\.clientlibs/[^"\']+\.js)\<close> and \<^verbatim>\<open>(/etc/clientlibs/[^"\']+\.js)\<close>\<close>

definition rx_clientlib_js :: "item list" where
  "rx_clientlib_js =
     [GOpen] @ lit ''/etc.clientlibs/'' @ [I (Plus not_quote)] @ lit ''.js'' @ [GClose]"

definition rx_old_clientlib_js :: "item list" where
  "rx_old_clientlib_js =
     [GOpen] @ lit ''/etc/clientlibs/'' @ [I (Plus not_quote)] @ lit ''.js'' @ [GClose]"

text \<open>\<^verbatim>\<open>(/etc\.clientlibs/[^"\']+\.css)\<close> and \<^verbatim>\<open>(/etc/clientlibs/[^"\']+\.css)\<close>\<close>

definition rx_clientlib_css :: "item list" where
  "rx_clientlib_css =
     [GOpen] @ lit ''/etc.clientlibs/'' @ [I (Plus not_quote)] @ lit ''.css'' @ [GClose]"

definition rx_old_clientlib_css :: "item list" where
  "rx_old_clientlib_css =
     [GOpen] @ lit ''/etc/clientlibs/'' @ [I (Plus not_quote)] @ lit ''.css'' @ [GClose]"

text \<open>\<^verbatim>\<open>(granite\.js|coral\.js|graniteui)\<close>\<close>

definition rx_ui_frameworks :: "item list" where
  "rx_ui_frameworks =
     [GOpen, Alt [lit0 ''granite.js'', lit0 ''coral.js'', lit0 ''graniteui''], GClose]"

text \<open>\<^verbatim>\<open>(/libs/[^"\']+)\<close> and \<^verbatim>\<open>(/apps/[^"\']+)\<close>\<close>

definition rx_libs_paths :: "item list" where
  "rx_libs_paths = [GOpen] @ lit ''/libs/'' @ [I (Plus not_quote), GClose]"

definition rx_apps_paths :: "item list" where
  "rx_apps_paths = [GOpen] @ lit ''/apps/'' @ [I (Plus not_quote), GClose]"

text \<open>\<^verbatim>\<open>\.html(\?|$)\<close>\<close>

definition rx_html_extension :: "item list" where
  "rx_html_extension = lit ''.html'' @ [GOpen, Alt [lit0 ''?'', [Eos]], GClose]"

text \<open>\<^verbatim>\<open>\.[a-z]+\.[a-z]+\.html\<close>\<close>

definition rx_selector :: "item list" where
  "rx_selector = lit ''.'' @ [I (Plus az)] @ lit ''.'' @ [I (Plus az)] @ lit ''.html''"

text \<open>
  \<^verbatim>\<open><meta[^>]+name=["\']generator["\'][^>]+content=["\']([^"\']+)["\']\<close>, used with
  \<^verbatim>\<open>re.IGNORECASE\<close>
\<close>

definition rx_meta_generator :: "item list" where
  "rx_meta_generator =
     lit ''<meta'' @ [I (Plus not_gt)] @ lit ''name='' @ [I (One quote)] @ lit ''generator''
       @ [I (One quote), I (Plus not_gt)] @ lit ''content=''
       @ [I (One quote), GOpen, I (Plus not_quote), GClose, I (One quote)]"

text \<open>\<^verbatim>\<open>wcmmode\<close>\<close>

definition rx_wcmmode :: "item list" where
  "rx_wcmmode = lit ''wcmmode''"

section \<open>Content signature scorer\<close>

text \<open>
  The part of a \<^verbatim>\<open>requests.Response\<close> that the program reads. \<open>resp_headers\<close> holds the
  items of the case-insensitive header dictionary and \<open>resp_url\<close> the final URL after
  redirects.
\<close>

record response =
  resp_status_code :: int
  resp_headers :: "(string \<times> string) list"
  resp_text :: string
  resp_url :: string

text \<open>
  The evidence dictionary keeps its keys in insertion order. The confidence is a Python
  float; it is a rational number here, so the sums are exact.
\<close>

type_synonym evidence = "(string \<times> string list) list"

definition evidence0 :: evidence where
  "evidence0 =
     [(''html_classes'', []), (''data_attributes'', []), (''html_comments'', []),
      (''headers'', []), (''javascript_paths'', []), (''css_paths'', []),
      (''url_patterns'', []), (''meta_tags'', [])]"

text \<open>\<^verbatim>\<open>evidence[k].extend(xs)\<close>, and \<^verbatim>\<open>evidence[k].append(x)\<close> with \<open>xs = [x]\<close>.\<close>

definition add_evidence :: "string \<Rightarrow> string list \<Rightarrow> evidence \<Rightarrow> evidence" where
  "add_evidence k xs ev = map (\<lambda>(k', v). if k' = k then (k', v @ xs) else (k', v)) ev"

text \<open>
  One check of \<^verbatim>\<open>detect_aem\<close>: \<^verbatim>\<open>if cond: evidence[k].extend(xs); confidence += inc\<close>.
  The state is the pair of the running confidence and the evidence.
\<close>

definition found :: "bool \<Rightarrow> string \<Rightarrow> string list \<Rightarrow> rat \<Rightarrow> rat \<times> evidence \<Rightarrow> rat \<times> evidence" where
  "found cond k xs inc st = (if cond then (fst st + inc, add_evidence k xs (snd st)) else st)"

text \<open>
  \<^verbatim>\<open>list(set(xs))\<close>: the distinct elements of \<open>xs\<close>. Python leaves their order open;
  \<open>remdups\<close> fixes one.
\<close>

definition list_set :: "string list \<Rightarrow> string list" where
  "list_set xs = remdups xs"

text \<open>The loop over the lower-cased headers, lines 250 to 256.\<close>

fun scan_headers :: "(string \<times> string) list \<Rightarrow> rat \<times> evidence \<Rightarrow> rat \<times> evidence" where
  "scan_headers [] st = st"
| "scan_headers ((header, value) # hs) st =
     scan_headers hs
       (if contains ''x-aem'' header \<or> contains ''x-cq'' header
        then (fst st + 3 / 10, add_evidence ''headers'' [header @ '': '' @ value] (snd st))
        else if contains ''day cq'' (lower value)
        then (fst st + 1 / 4, add_evidence ''headers'' [header @ '': '' @ value] (snd st))
        else st)"

text \<open>\<^verbatim>\<open>str(n)\<close> for the count in \<^verbatim>\<open>f'Found {len(aem_comments)} AEM-related comments'\<close>.\<close>

fun str_nat :: "nat \<Rightarrow> string" where
  "str_nat n =
     (if n < 10 then [''0123456789'' ! n] else str_nat (n div 10) @ [''0123456789'' ! (n mod 10)])"

definition detect_aem :: "response \<Rightarrow> bool \<times> rat \<times> evidence" where
  "detect_aem response =
     (let s = (0, evidence0);
          html_content = lower (resp_text response);
          headers = map (\<lambda>(k, v). (lower k, v)) (resp_headers response);
          url = resp_url response;
          cq_classes = re_findall False rx_cq_classes html_content;
          s = found (cq_classes \<noteq> []) ''html_classes'' (list_set cq_classes) (1 / 4) s;
          aem_classes = re_findall False rx_aem_classes html_content;
          s = found (aem_classes \<noteq> []) ''html_classes'' (list_set aem_classes) (1 / 4) s;
          data_attrs = re_findall False rx_data_attrs html_content;
          s = found (data_attrs \<noteq> []) ''data_attributes'' (list_set data_attrs) (3 / 10) s;
          data_path = re_search False rx_data_path html_content;
          s = found (data_path \<noteq> None) ''data_attributes'' [''data-path''] (3 / 20) s;
          aem_comments = re_findall True rx_aem_comments html_content;
          s = found (aem_comments \<noteq> []) ''html_comments''
                [''Found '' @ str_nat (length aem_comments) @ '' AEM-related comments''] (1 / 5) s;
          s = scan_headers headers s;
          clientlib_js = re_findall False rx_clientlib_js html_content;
          s = found (clientlib_js \<noteq> []) ''javascript_paths''
                (list_set (take 3 clientlib_js)) (7 / 20) s;
          old_clientlib_js = re_findall False rx_old_clientlib_js html_content;
          s = found (old_clientlib_js \<noteq> []) ''javascript_paths''
                (list_set (take 3 old_clientlib_js)) (7 / 20) s;
          clientlib_css = re_findall False rx_clientlib_css html_content;
          s = found (clientlib_css \<noteq> []) ''css_paths''
                (list_set (take 3 clientlib_css)) (3 / 10) s;
          old_clientlib_css = re_findall False rx_old_clientlib_css html_content;
          s = found (old_clientlib_css \<noteq> []) ''css_paths''
                (list_set (take 3 old_clientlib_css)) (3 / 10) s;
          s = found (re_search False rx_ui_frameworks html_content \<noteq> None) ''javascript_paths''
                [''AEM UI frameworks (granite.js/coral.js)''] (1 / 4) s;
          libs_paths = re_findall False rx_libs_paths html_content;
          s = found (libs_paths \<noteq> []) ''javascript_paths'' (list_set (take 2 libs_paths)) (1 / 5) s;
          apps_paths = re_findall False rx_apps_paths html_content;
          s = found (apps_paths \<noteq> []) ''javascript_paths'' (list_set (take 2 apps_paths)) (1 / 5) s;
          s = found (contains ''/content/'' url) ''url_patterns'' [''/content/ in URL''] (3 / 20) s;
          s = found (re_search False rx_html_extension url \<noteq> None) ''url_patterns''
                [''.html extension''] (1 / 20) s;
          s = found (re_search False rx_selector url \<noteq> None) ''url_patterns''
                [''Selector pattern in URL''] (1 / 10) s;
          meta_generator = re_search True rx_meta_generator html_content;
          s = found (meta_generator \<noteq> None \<and>
                     (contains ''aem'' (lower (group1 meta_generator)) \<or>
                      contains ''day cq'' (lower (group1 meta_generator)))) ''meta_tags''
                [''Generator: '' @ group1 meta_generator] (3 / 10) s;
          s = found (re_search False rx_wcmmode html_content \<noteq> None) ''html_classes''
                [''wcmmode present''] (3 / 20) s;
          confidence = min (fst s) 1;
          is_aem = (confidence \<ge> 3 / 10);
          evidence = filter (\<lambda>(k, v). v \<noteq> []) (snd s)
      in (is_aem, confidence, evidence))"

section \<open>Probe unit\<close>

text \<open>
  The dictionary returned by \<^verbatim>\<open>check_akamai_cache\<close>, one field per key.
  \<^verbatim>\<open>status_code\<close> is the integer of the response or the string \<^verbatim>\<open>'ERROR'\<close>.
\<close>

datatype status = Code int | Sentinel string

record probe_result =
  r_url :: string
  r_status_code :: status
  r_cache_hit :: string
  r_x_cache :: string
  r_x_cache_remote :: string
  r_x_check_cacheable :: string
  r_x_cache_key :: string
  r_x_true_cache_key :: string
  r_x_served_by :: string
  r_x_timer :: string
  r_age :: string
  r_cache_control :: string
  r_response_time_ms :: "int option"
  r_is_aem :: "bool option"
  r_aem_confidence :: "rat option"
  r_aem_evidence :: "evidence option"
  r_error :: "string option"

text \<open>\<^verbatim>\<open>response.headers.get(name, fallback)\<close> on the case-insensitive dictionary.\<close>

definition headers_get :: "(string \<times> string) list \<Rightarrow> string \<Rightarrow> string \<Rightarrow> string" where
  "headers_get hs name fallback =
     (case find (\<lambda>(k, v). lower k = lower name) hs of
        None \<Rightarrow> fallback
      | Some (k, v) \<Rightarrow> v)"

text \<open>
  \<^verbatim>\<open>check_akamai_cache\<close>. \<open>get\<close> is \<^verbatim>\<open>requests.get\<close> with the fixed headers, the
  15 second timeout and redirects followed: \<open>Inl e\<close> is an exception whose \<^verbatim>\<open>str\<close> is
  \<open>e\<close>, \<open>Inr response\<close> a completed response. Nothing else in the body of the \<^verbatim>\<open>try\<close>
  raises: a missing header has a default, the errors of the timing parse are caught
  where they arise, and \<^verbatim>\<open>detect_aem\<close> only searches strings.
\<close>

definition check_akamai_cache :: "(string \<Rightarrow> string + response) \<Rightarrow> string \<Rightarrow> bool \<Rightarrow> probe_result" where
  "check_akamai_cache get url test_for_aem =
     (case get url of
        Inr response \<Rightarrow>
          (let x_cache = headers_get (resp_headers response) ''X-Cache'' ''NOT_FOUND'';
               x_cache_remote = headers_get (resp_headers response) ''X-Cache-Remote'' ''NOT_FOUND'';
               x_check_cacheable = headers_get (resp_headers response) ''X-Check-Cacheable'' ''UNKNOWN'';
               x_cache_key = headers_get (resp_headers response) ''X-Cache-Key'' ''NOT_FOUND'';
               x_true_cache_key = headers_get (resp_headers response) ''X-True-Cache-Key'' ''NOT_FOUND'';
               x_served_by = headers_get (resp_headers response) ''X-Served-By'' ''NOT_FOUND'';
               x_timer = headers_get (resp_headers response) ''X-Timer'' ''NOT_FOUND'';
               age = headers_get (resp_headers response) ''Age'' ''0'';
               cache_control = headers_get (resp_headers response) ''Cache-Control'' ''NOT_FOUND'';
               (cache_hit, response_time_ms) = classify x_cache x_check_cacheable age x_timer;
               aem = (if test_for_aem then Some (detect_aem response) else None)
           in \<lparr>r_url = url,
               r_status_code = Code (resp_status_code response),
               r_cache_hit = cache_hit,
               r_x_cache = x_cache,
               r_x_cache_remote = x_cache_remote,
               r_x_check_cacheable = x_check_cacheable,
               r_x_cache_key = x_cache_key,
               r_x_true_cache_key = x_true_cache_key,
               r_x_served_by = x_served_by,
               r_x_timer = x_timer,
               r_age = age,
               r_cache_control = cache_control,
               r_response_time_ms = response_time_ms,
               r_is_aem = map_option fst aem,
               r_aem_confidence = map_option (fst \<circ> snd) aem,
               r_aem_evidence = map_option (snd \<circ> snd) aem,
               r_error = None\<rparr>)
      | Inl e \<Rightarrow>
          \<lparr>r_url = url,
           r_status_code = Sentinel ''ERROR'',
           r_cache_hit = ''ERROR'',
           r_x_cache = ''ERROR'',
           r_x_cache_remote = ''ERROR'',
           r_x_check_cacheable = ''ERROR'',
           r_x_cache_key = ''ERROR'',
           r_x_true_cache_key = ''ERROR'',
           r_x_served_by = ''ERROR'',
           r_x_timer = ''ERROR'',
           r_age = ''ERROR'',
           r_cache_control = ''ERROR'',
           r_response_time_ms = None,
           r_is_aem = None,
           r_aem_confidence = None,
           r_aem_evidence = None,
           r_error = Some e\<rparr>)"

section \<open>Batch scheduler and result aggregation\<close>

text \<open>The module constants \<^verbatim>\<open>URL_BATCH_SIZE = 3\<close> and \<^verbatim>\<open>BATCH_DELAY = 1.0\<close>.\<close>

definition URL_BATCH_SIZE :: int where
  "URL_BATCH_SIZE = 3"

definition BATCH_DELAY :: rat where
  "BATCH_DELAY = 1"

text \<open>
  What a run does to the outside world, in order: the fetch of the sitemap, the dispatch
  of one group of URLs to the thread pool (every URL of the group is probed), and a
  \<^verbatim>\<open>time.sleep\<close>.
\<close>

datatype event = FetchSitemap string | Dispatch "string list" | Sleep rat

text \<open>
  \<^verbatim>\<open>range(start, stop, step)\<close>: a zero step raises \<^verbatim>\<open>ValueError\<close>, a positive step
  counts up while below \<open>stop\<close>, a negative one counts down while above it.
\<close>

function range_up :: "int \<Rightarrow> int \<Rightarrow> int \<Rightarrow> int list" where
  "range_up i stop step = (if 0 < step \<and> i < stop then i # range_up (i + step) stop step else [])"
  by pat_completeness auto
termination
  by (relation "measure (\<lambda>(i, stop, step). nat (stop - i))") auto

function range_down :: "int \<Rightarrow> int \<Rightarrow> int \<Rightarrow> int list" where
  "range_down i stop step =
     (if step < 0 \<and> stop < i then i # range_down (i + step) stop step else [])"
  by pat_completeness auto
termination
  by (relation "measure (\<lambda>(i, stop, step). nat (i - stop))") auto

definition py_range :: "int \<Rightarrow> int \<Rightarrow> int \<Rightarrow> string + int list" where
  "py_range start stop step =
     (if step = 0 then Inl ''range() arg 3 must not be zero''
      else if 0 < step then Inr (range_up start stop step)
      else Inr (range_down start stop step))"

text \<open>
  The body of the loop of lines 374 to 387, once for each start index \<open>i\<close> of the range.
  \<^verbatim>\<open>urls[i:i + URL_BATCH_SIZE]\<close> is taken for \<open>0 \<le> i\<close> and a positive batch size, the only
  case in which the range is not empty. Within a group the results are appended as the
  probes complete; the submission order stands for that order here. A negative
  \<^verbatim>\<open>BATCH_DELAY\<close> makes \<^verbatim>\<open>time.sleep\<close> raise \<^verbatim>\<open>ValueError\<close>. The events so far are
  returned in either case.
\<close>

fun run_batches ::
  "(string \<Rightarrow> string + response) \<Rightarrow> bool \<Rightarrow> int \<Rightarrow> rat \<Rightarrow> string list \<Rightarrow> int list
     \<Rightarrow> event list \<Rightarrow> probe_result list \<Rightarrow> event list \<times> (string + probe_result list)" where
  "run_batches get check_aem batch_size delay urls [] evs results = (evs, Inr results)"
| "run_batches get check_aem batch_size delay urls (i # is) evs results =
     (let batch = take (nat batch_size) (drop (nat i) urls);
          evs = evs @ [Dispatch batch];
          results = results @ map (\<lambda>url. check_akamai_cache get url check_aem) batch
      in if i + batch_size < int (length urls)
         then if delay < 0 then (evs, Inl ''sleep length must be non-negative'')
              else run_batches get check_aem batch_size delay urls is (evs @ [Sleep delay]) results
         else run_batches get check_aem batch_size delay urls is evs results)"

definition schedule ::
  "(string \<Rightarrow> string + response) \<Rightarrow> bool \<Rightarrow> int \<Rightarrow> rat \<Rightarrow> string list
     \<Rightarrow> event list \<times> (string + probe_result list)" where
  "schedule get check_aem batch_size delay urls =
     (case py_range 0 (int (length urls)) batch_size of
        Inl e \<Rightarrow> ([], Inl e)
      | Inr starts \<Rightarrow> run_batches get check_aem batch_size delay urls starts [] [])"

text \<open>The summary dictionary of lines 413 to 426.\<close>

record summary =
  s_total_urls :: int
  s_cache_hits :: int
  s_cache_misses :: int
  s_confirmed_hits :: int
  s_inferred_hits :: int
  s_confirmed_misses :: int
  s_inferred_misses :: int
  s_not_cacheable :: int
  s_total_aem_detected :: int
  s_errors :: int
  s_unknown :: int
  s_cache_hit_ratio :: rat

text \<open>\<^verbatim>\<open>sum(1 for r in results if P(r))\<close>\<close>

definition count_where :: "('a \<Rightarrow> bool) \<Rightarrow> 'a list \<Rightarrow> int" where
  "count_where P xs = sum_list (map (\<lambda>r. 1) (filter P xs))"

text \<open>
  \<^verbatim>\<open>round(x, 2)\<close>: the nearest multiple of one hundredth, a tie going to the even one.
  The ratio is a Python float; it is a rational number here.
\<close>

definition py_round2 :: "rat \<Rightarrow> rat" where
  "py_round2 x =
     (let y = x * 100;
          f = \<lfloor>y\<rfloor>;
          d = y - of_int f
      in of_int (if d < 1 / 2 then f else if 1 / 2 < d then f + 1
                 else if even f then f else f + 1) / 100)"

definition summarize :: "probe_result list \<Rightarrow> summary" where
  "summarize results =
     (let total = int (length results);
          hits = count_where (\<lambda>r. contains ''HIT'' (r_cache_hit r)) results;
          misses = count_where (\<lambda>r. contains ''MISS'' (r_cache_hit r)) results;
          inferred_hits = count_where (\<lambda>r. r_cache_hit r = ''HIT (inferred from timing)'') results;
          inferred_misses = count_where (\<lambda>r. r_cache_hit r = ''MISS (inferred from timing)'') results;
          confirmed_hits = count_where (\<lambda>r. r_cache_hit r \<in> set [''HIT'', ''REFRESH_HIT'']) results;
          confirmed_misses = count_where (\<lambda>r. r_cache_hit r \<in> set [''MISS'', ''REFRESH_MISS'']) results;
          not_cacheable = count_where (\<lambda>r. r_cache_hit r = ''NOT_CACHEABLE'') results;
          errors = count_where (\<lambda>r. r_cache_hit r = ''ERROR'') results;
          unknown = count_where (\<lambda>r. contains ''UNKNOWN'' (r_cache_hit r)) results;
          cacheable_total = total - not_cacheable - errors;
          cache_hit_ratio =
            (if cacheable_total > 0 then of_int hits / of_int cacheable_total * 100 else 0);
          total_aem_detected = count_where (\<lambda>r. r_is_aem r = Some True) results
      in \<lparr>s_total_urls = total,
          s_cache_hits = hits,
          s_cache_misses = misses,
          s_confirmed_hits = confirmed_hits,
          s_inferred_hits = inferred_hits,
          s_confirmed_misses = confirmed_misses,
          s_inferred_misses = inferred_misses,
          s_not_cacheable = not_cacheable,
          s_total_aem_detected = total_aem_detected,
          s_errors = errors,
          s_unknown = unknown,
          s_cache_hit_ratio = py_round2 cache_hit_ratio\<rparr>)"

text \<open>
  The JSON body of a request to \<^verbatim>\<open>/test\<close>. \<^verbatim>\<open>test_sitemap\<close> reads the keys
  \<^verbatim>\<open>sitemap_url\<close> and \<^verbatim>\<open>check_aem\<close>; the keys \<^verbatim>\<open>batch_size\<close>, \<^verbatim>\<open>batch_delay\<close> and
  \<^verbatim>\<open>max_urls\<close> are the ones the requests of \<^verbatim>\<open>test_configurable_batching.py\<close> carry.
\<close>

record request =
  req_sitemap_url :: string
  req_check_aem :: bool
  req_batch_size :: "int option"
  req_batch_delay :: "rat option"
  req_max_urls :: "int option"

datatype body = Failure string | Success summary "probe_result list"

text \<open>
  \<^verbatim>\<open>test_sitemap\<close>, as the events of the run, the HTTP status and the body of the reply
  (without its time stamp). \<open>parse_sitemap\<close> stands for the function of that name, which
  fetches the sitemap over the network and either returns the URLs or raises.
\<close>

definition test_sitemap ::
  "(string \<Rightarrow> string + string list) \<Rightarrow> (string \<Rightarrow> string + response) \<Rightarrow> request
     \<Rightarrow> event list \<times> int \<times> body" where
  "test_sitemap parse_sitemap get data =
     (let sitemap_url = strip (req_sitemap_url data);
          check_aem = req_check_aem data
      in if sitemap_url = [] then ([], 400, Failure ''Please provide a sitemap URL'')
         else
           (case parse_sitemap sitemap_url of
              Inl e \<Rightarrow> ([FetchSitemap sitemap_url], 500, Failure e)
            | Inr urls \<Rightarrow>
                if urls = [] then ([FetchSitemap sitemap_url], 400, Failure ''No URLs found in sitemap'')
                else
                  (let max_urls = 100;
                       urls = (if length urls > max_urls then take max_urls urls else urls)
                   in case schedule get check_aem URL_BATCH_SIZE BATCH_DELAY urls of
                        (evs, Inl e) \<Rightarrow> (FetchSitemap sitemap_url # evs, 500, Failure e)
                      | (evs, Inr results) \<Rightarrow>
                          (FetchSitemap sitemap_url # evs, 200,
                           Success (summarize results) results))))"

section \<open>The specification's wording\<close>

text \<open>
  The definitions of this section follow the specification, not the code: they are what
  the code is compared with.
\<close>

record signals =
  sig_x_cache :: string
  sig_x_check_cacheable :: string
  sig_age :: string
  sig_x_timer :: string

text \<open>Rules 1 to 6 of the decision ladder, as an ordered list of predicates and verdicts.\<close>

definition ladder :: "((signals \<Rightarrow> bool) \<times> string) list" where
  "ladder =
     [(\<lambda>s. contains ''TCP_HIT'' (sig_x_cache s) \<or> contains ''TCP_MEM_HIT'' (sig_x_cache s), ''HIT''),
      (\<lambda>s. contains ''TCP_MISS'' (sig_x_cache s), ''MISS''),
      (\<lambda>s. contains ''TCP_REFRESH_HIT'' (sig_x_cache s), ''REFRESH_HIT''),
      (\<lambda>s. contains ''TCP_REFRESH_MISS'' (sig_x_cache s), ''REFRESH_MISS''),
      (\<lambda>s. sig_x_check_cacheable s = ''NO'', ''NOT_CACHEABLE''),
      (\<lambda>s. sig_age s \<noteq> [] \<and> sig_age s \<noteq> ''0'', ''HIT'')]"

text \<open>The verdict of the first rule whose predicate holds, if there is one.\<close>

definition first_match :: "(('a \<Rightarrow> bool) \<times> 'b) list \<Rightarrow> 'a \<Rightarrow> 'b option" where
  "first_match rules s = map_option snd (find (\<lambda>(p, v). p s) rules)"

text \<open>The condition of rule 7: the timing header is present and contains \<^verbatim>\<open>VE\<close>.\<close>

definition timing_rule :: "signals \<Rightarrow> bool" where
  "timing_rule s = (sig_x_timer s \<noteq> ''NOT_FOUND'' \<and> contains ''VE'' (sig_x_timer s))"

text \<open>Consecutive groups of \<open>b\<close> elements, the last one possibly smaller.\<close>

function chunks :: "nat \<Rightarrow> 'a list \<Rightarrow> 'a list list" where
  "chunks b xs = (if b = 0 \<or> xs = [] then [] else take b xs # chunks b (drop b xs))"
  by pat_completeness auto
termination
  by (relation "measure (\<lambda>(b, xs). length xs)") auto

text \<open>A pause after every group except the last.\<close>

fun paced :: "rat \<Rightarrow> string list list \<Rightarrow> event list" where
  "paced d [] = []"
| "paced d [g] = [Dispatch g]"
| "paced d (g # gs) = Dispatch g # Sleep d # paced d gs"

text \<open>The nine verdicts the classifier can give.\<close>

definition verdicts :: "string list" where
  "verdicts =
     [''HIT'', ''MISS'', ''REFRESH_HIT'', ''REFRESH_MISS'', ''NOT_CACHEABLE'', ''UNKNOWN'',
      ''UNKNOWN (timing inconclusive)'', ''HIT (inferred from timing)'',
      ''MISS (inferred from timing)'']"

text \<open>
  An error result: the status, the verdict and the nine header echoes are the sentinel
  \<^verbatim>\<open>'ERROR'\<close>, the optional fields are absent, and the message is recorded.
\<close>

definition error_result :: "string \<Rightarrow> string \<Rightarrow> probe_result" where
  "error_result url e =
     \<lparr>r_url = url, r_status_code = Sentinel ''ERROR'', r_cache_hit = ''ERROR'',
      r_x_cache = ''ERROR'', r_x_cache_remote = ''ERROR'', r_x_check_cacheable = ''ERROR'',
      r_x_cache_key = ''ERROR'', r_x_true_cache_key = ''ERROR'', r_x_served_by = ''ERROR'',
      r_x_timer = ''ERROR'', r_age = ''ERROR'', r_cache_control = ''ERROR'',
      r_response_time_ms = None, r_is_aem = None, r_aem_confidence = None,
      r_aem_evidence = None, r_error = Some e\<rparr>"

text \<open>The two shapes of a result: a successful classification, or an error message.\<close>

definition classified :: "probe_result \<Rightarrow> bool" where
  "classified r =
     (r_error r = None \<and> r_cache_hit r \<in> set verdicts \<and> (\<exists>n. r_status_code r = Code n))"

definition failed :: "probe_result \<Rightarrow> bool" where
  "failed r =
     ((\<exists>e. r_error r = Some e) \<and> r_cache_hit r = ''ERROR'' \<and> r_status_code r = Sentinel ''ERROR'')"


text \<open>
  What the scorer adds for one check: the increment when the check matched, nothing
  otherwise.
\<close>

definition inc_if :: "bool \<Rightarrow> rat \<Rightarrow> rat" where
  "inc_if c inc = (if c then inc else 0)"

text \<open>What one header, with its name in lower case, adds to the confidence.\<close>

definition header_increment :: "string \<times> string \<Rightarrow> rat" where
  "header_increment h =
     (if contains ''x-aem'' (fst h) \<or> contains ''x-cq'' (fst h) then 3 / 10
      else if contains ''day cq'' (lower (snd h)) then 1 / 4 else 0)"

text \<open>
  The seventeen checks of the body and of the URL, each with its increment: whether the
  pattern has a match at all, not how many it has.
\<close>

definition pattern_checks :: "response \<Rightarrow> (bool \<times> rat) list" where
  "pattern_checks response =
     (let html_content = lower (resp_text response);
          url = resp_url response;
          meta_generator = re_search True rx_meta_generator html_content
      in [(re_findall False rx_cq_classes html_content \<noteq> [], 1 / 4),
          (re_findall False rx_aem_classes html_content \<noteq> [], 1 / 4),
          (re_findall False rx_data_attrs html_content \<noteq> [], 3 / 10),
          (re_search False rx_data_path html_content \<noteq> None, 3 / 20),
          (re_findall True rx_aem_comments html_content \<noteq> [], 1 / 5),
          (re_findall False rx_clientlib_js html_content \<noteq> [], 7 / 20),
          (re_findall False rx_old_clientlib_js html_content \<noteq> [], 7 / 20),
          (re_findall False rx_clientlib_css html_content \<noteq> [], 3 / 10),
          (re_findall False rx_old_clientlib_css html_content \<noteq> [], 3 / 10),
          (re_search False rx_ui_frameworks html_content \<noteq> None, 1 / 4),
          (re_findall False rx_libs_paths html_content \<noteq> [], 1 / 5),
          (re_findall False rx_apps_paths html_content \<noteq> [], 1 / 5),
          (contains ''/content/'' url, 3 / 20),
          (re_search False rx_html_extension url \<noteq> None, 1 / 20),
          (re_search False rx_selector url \<noteq> None, 1 / 10),
          (meta_generator \<noteq> None \<and>
             (contains ''aem'' (lower (group1 meta_generator)) \<or>
              contains ''day cq'' (lower (group1 meta_generator))), 3 / 10),
          (re_search False rx_wcmmode html_content \<noteq> None, 3 / 20)])"

text \<open>
  Two responses: one with two \<^verbatim>\<open>X-AEM\<close> headers and an empty body, one whose body is
  \<^verbatim>\<open><p class="cq-a aem-b">\<close>.
\<close>

definition two_aem_headers :: response where
  "two_aem_headers =
     \<lparr>resp_status_code = 200, resp_headers = [(''X-AEM-A'', ''1''), (''X-AEM-B'', ''2'')],
      resp_text = [], resp_url = []\<rparr>"

definition two_class_names :: response where
  "two_class_names =
     \<lparr>resp_status_code = 200, resp_headers = [],
      resp_text = ''<p class='' @ [CHR 0x22] @ ''cq-a aem-b'' @ [CHR 0x22] @ ''>'',
      resp_url = []\<rparr>"

text \<open>A response whose body is \<^verbatim>\<open><div class="CQ-Foo">\<close>.\<close>

definition mixed_case_class :: response where
  "mixed_case_class =
     \<lparr>resp_status_code = 200, resp_headers = [],
      resp_text = ''<div class='' @ [CHR 0x22] @ ''CQ-Foo'' @ [CHR 0x22] @ ''>'',
      resp_url = []\<rparr>"

text \<open>
  The request of \<^verbatim>\<open>test_invalid_batch_size\<close> in \<^verbatim>\<open>test_configurable_batching.py\<close>:
  a sitemap URL and \<^verbatim>\<open>batch_size\<close> 0.
\<close>

definition zero_batch_request :: request where
  "zero_batch_request =
     \<lparr>req_sitemap_url = ''https://example.com/sitemap.xml'', req_check_aem = True,
      req_batch_size = Some 0, req_batch_delay = None, req_max_urls = None\<rparr>"

text \<open>The hits and the cacheable total of a result set, as the specification defines them.\<close>

definition hits_of :: "probe_result list \<Rightarrow> int" where
  "hits_of results = int (length (filter (\<lambda>r. contains ''HIT'' (r_cache_hit r)) results))"

definition cacheable_total_of :: "probe_result list \<Rightarrow> int" where
  "cacheable_total_of results =
     int (length results)
       - int (length (filter (\<lambda>r. r_cache_hit r = ''NOT_CACHEABLE'') results))
       - int (length (filter (\<lambda>r. r_cache_hit r = ''ERROR'') results))"

text \<open>
  A result with a given verdict, and the mixed result set of the specification: three
  hits, three inferred hits, two misses, one not cacheable and one error.
\<close>

definition verdict_result :: "string \<Rightarrow> probe_result" where
  "verdict_result v = (error_result [] [])\<lparr>r_cache_hit := v, r_error := None\<rparr>"

definition mixed_results :: "probe_result list" where
  "mixed_results =
     replicate 3 (verdict_result ''HIT'') @
     replicate 3 (verdict_result ''HIT (inferred from timing)'') @
     replicate 2 (verdict_result ''MISS'') @
     [verdict_result ''NOT_CACHEABLE'', verdict_result ''ERROR'']"

text \<open>The pauses of a run, and the groups it dispatched, in order.\<close>

fun is_sleep :: "event \<Rightarrow> bool" where
  "is_sleep (Sleep d) = True"
| "is_sleep _ = False"

fun dispatched :: "event list \<Rightarrow> string list list" where
  "dispatched [] = []"
| "dispatched (Dispatch g # evs) = g # dispatched evs"
| "dispatched (_ # evs) = dispatched evs"

text \<open>Twenty-five URLs.\<close>

definition urls25 :: "string list" where
  "urls25 = map (\<lambda>n. ''u'' @ str_nat n) [0..<25]"

section \<open>The classifier\<close>

lemma split_acc_nonempty: "split_acc sep acc s \<noteq> []"
  by (induction sep acc s rule: split_acc.induct) auto

lemma contains_split:
  "contains sep s \<Longrightarrow> sep \<noteq> [] \<Longrightarrow> \<exists>a b bs. split_acc sep acc s = a # b # bs"
proof (induction sep acc s rule: split_acc.induct)
  case (1 sep acc)
  then show ?case by simp
next
  case (2 sep acc c cs)
  show ?case
  proof (cases "prefix sep (c # cs)")
    case True
    obtain b bs where "split_acc sep [] (drop (length sep) (c # cs)) = b # bs"
      using split_acc_nonempty by (meson neq_Nil_conv)
    then show ?thesis using True 2(4) by simp
  next
    case False
    then show ?thesis using 2 by auto
  qed
qed

lemma ve_part_Some: "contains ''VE'' x \<Longrightarrow> \<exists>p. ve_part x = Some p"
  using contains_split[of "''VE''" x "[]"] split_acc_nonempty
  by (auto simp: ve_part_def split_def split: list.splits)

lemma timing_verdict_cases:
  "timing_verdict t \<in> {''HIT (inferred from timing)'', ''MISS (inferred from timing)'',
     ''UNKNOWN (timing inconclusive)''}"
  by (simp add: timing_verdict_def)

lemma classify_timing_verdicts: "fst (classify_timing x) \<in> set verdicts"
  using timing_verdict_cases
  by (auto simp: classify_timing_def verdicts_def split: option.splits)

lemma classify_verdicts: "fst (classify a b c d) \<in> set verdicts"
proof -
  have "fst (classify a b c d) = fst (classify_timing d) \<or> fst (classify a b c d) \<in> set verdicts"
    by (simp add: classify_def verdicts_def)
  then show ?thesis using classify_timing_verdicts by auto
qed

lemma ERROR_not_verdict: "''ERROR'' \<notin> set verdicts"
  by (simp add: verdicts_def)

text \<open>
  C1: for every set of extracted signals the classifier returns the verdict of the first
  rule of the ladder (rules 1 to 6) that matches, with no response time; the rules after
  it have no influence. When none of the six matches, the result is that of the timing
  rule if its condition holds, and \<^verbatim>\<open>UNKNOWN\<close> otherwise.
\<close>

theorem classify_first_match:
  "classify (sig_x_cache s) (sig_x_check_cacheable s) (sig_age s) (sig_x_timer s) =
     (case first_match ladder s of
        Some v \<Rightarrow> (v, None)
      | None \<Rightarrow> if timing_rule s then classify_timing (sig_x_timer s) else (''UNKNOWN'', None))"
  by (simp add: classify_def first_match_def ladder_def timing_rule_def)

text \<open>
  A cache indicator of \<^verbatim>\<open>TCP_HIT\<close> with age \<^verbatim>\<open>0\<close> is a \<^verbatim>\<open>HIT\<close> by rule 1.
\<close>

theorem classify_first_match_witness:
  "first_match ladder
     \<lparr>sig_x_cache = ''TCP_HIT'', sig_x_check_cacheable = ''UNKNOWN'', sig_age = ''0'',
      sig_x_timer = ''NOT_FOUND''\<rparr> = Some ''HIT'' \<and>
   classify ''TCP_HIT'' ''UNKNOWN'' ''0'' ''NOT_FOUND'' = (''HIT'', None)"
  using classify_first_match
    [of "\<lparr>sig_x_cache = ''TCP_HIT'', sig_x_check_cacheable = ''UNKNOWN'', sig_age = ''0'',
          sig_x_timer = ''NOT_FOUND''\<rparr>"]
  by (simp add: first_match_def ladder_def)

text \<open>
  C2: when rules 1 to 6 do not match and the timing header is present and contains
  \<^verbatim>\<open>VE\<close>, the piece after \<^verbatim>\<open>VE\<close> up to the next comma always exists and is parsed as
  an integer. A valid integer \<open>t\<close> gives \<^verbatim>\<open>HIT (inferred from timing)\<close> below 100,
  \<^verbatim>\<open>MISS (inferred from timing)\<close> above 500 and \<^verbatim>\<open>UNKNOWN (timing inconclusive)\<close>
  otherwise, with \<open>t\<close> recorded as the response time in all three cases; a failed parse
  gives \<^verbatim>\<open>UNKNOWN\<close> and no response time.
\<close>

theorem classify_timing_rule:
  assumes "first_match ladder s = None" and "timing_rule s"
  shows "\<exists>p. ve_part (sig_x_timer s) = Some p \<and>
     classify (sig_x_cache s) (sig_x_check_cacheable s) (sig_age s) (sig_x_timer s) =
       (case py_int p of
          None \<Rightarrow> (''UNKNOWN'', None)
        | Some t \<Rightarrow>
            (if t < 100 then ''HIT (inferred from timing)''
             else if t > 500 then ''MISS (inferred from timing)''
             else ''UNKNOWN (timing inconclusive)'', Some t))"
proof -
  obtain p where p: "ve_part (sig_x_timer s) = Some p"
    using assms(2) ve_part_Some by (auto simp: timing_rule_def)
  have "classify (sig_x_cache s) (sig_x_check_cacheable s) (sig_age s) (sig_x_timer s) =
      classify_timing (sig_x_timer s)"
    using assms by (auto simp: classify_def first_match_def ladder_def timing_rule_def split: if_splits)
  then show ?thesis using p
    by (simp add: classify_timing_def timing_verdict_def split: option.splits)
qed

text \<open>The timing header \<^verbatim>\<open>S1,VS0,VS0,VE50\<close> gives an inferred hit with response time 50.\<close>

theorem classify_timing_rule_witness:
  "first_match ladder
     \<lparr>sig_x_cache = ''NOT_FOUND'', sig_x_check_cacheable = ''UNKNOWN'', sig_age = ''0'',
      sig_x_timer = ''S1,VS0,VS0,VE50''\<rparr> = None \<and>
   timing_rule
     \<lparr>sig_x_cache = ''NOT_FOUND'', sig_x_check_cacheable = ''UNKNOWN'', sig_age = ''0'',
      sig_x_timer = ''S1,VS0,VS0,VE50''\<rparr> \<and>
   ve_part ''S1,VS0,VS0,VE50'' = Some ''50'' \<and> py_int ''50'' = Some 50 \<and>
   classify ''NOT_FOUND'' ''UNKNOWN'' ''0'' ''S1,VS0,VS0,VE50'' =
     (''HIT (inferred from timing)'', Some 50)"
proof -
  let ?s = "\<lparr>sig_x_cache = ''NOT_FOUND'', sig_x_check_cacheable = ''UNKNOWN'', sig_age = ''0'',
      sig_x_timer = ''S1,VS0,VS0,VE50''\<rparr>"
  have h1: "first_match ladder ?s = None"
    by (simp add: first_match_def ladder_def)
  have h2: "timing_rule ?s"
    by (simp add: timing_rule_def)
  have v: "ve_part ''S1,VS0,VS0,VE50'' = Some ''50''"
    by (simp add: ve_part_def split_def)
  have i: "py_int ''50'' = Some 50"
    by (simp add: py_int_def strip_def is_space_def is_digit_def digit_val_def)
  show ?thesis using h1 h2 v i classify_timing_rule[OF h1 h2] by simp
qed

section \<open>The probe unit\<close>

text \<open>
  C3: \<^verbatim>\<open>check_akamai_cache\<close> returns a result for every URL and every outcome of the
  fetch. When the fetch raises, the result is the error result with the message of the
  exception. Every result it returns is either a successful classification (no error
  message, one of the nine verdicts, a numeric status) or an error (a message, verdict
  and status both \<^verbatim>\<open>'ERROR'\<close>), and never both.
\<close>

theorem check_akamai_cache_total:
  "(\<forall>e. get url = Inl e \<longrightarrow> check_akamai_cache get url test_for_aem = error_result url e) \<and>
   classified (check_akamai_cache get url test_for_aem) \<noteq>
     failed (check_akamai_cache get url test_for_aem)"
proof (cases "get url")
  case (Inl e)
  then have "check_akamai_cache get url test_for_aem = error_result url e"
    by (simp add: check_akamai_cache_def error_result_def)
  then show ?thesis using Inl ERROR_not_verdict
    by (simp add: error_result_def classified_def failed_def)
next
  case (Inr response)
  obtain v t where c: "classify (headers_get (resp_headers response) ''X-Cache'' ''NOT_FOUND'')
      (headers_get (resp_headers response) ''X-Check-Cacheable'' ''UNKNOWN'')
      (headers_get (resp_headers response) ''Age'' ''0'')
      (headers_get (resp_headers response) ''X-Timer'' ''NOT_FOUND'') = (v, t)"
    by (cases "classify (headers_get (resp_headers response) ''X-Cache'' ''NOT_FOUND'')
      (headers_get (resp_headers response) ''X-Check-Cacheable'' ''UNKNOWN'')
      (headers_get (resp_headers response) ''Age'' ''0'')
      (headers_get (resp_headers response) ''X-Timer'' ''NOT_FOUND'')") simp
  then have v: "v \<in> set verdicts"
    using classify_verdicts by (metis fst_conv)
  then have "v \<noteq> ''ERROR''" using ERROR_not_verdict by auto
  then show ?thesis using Inr c v
    by (simp add: check_akamai_cache_def classified_def failed_def Let_def)
qed

text \<open>A fetch that times out.\<close>

theorem check_akamai_cache_total_witness:
  "(\<lambda>u. Inl ''timed out'' :: string + response) ''http://a/'' = Inl ''timed out'' \<and>
   check_akamai_cache (\<lambda>u. Inl ''timed out'') ''http://a/'' True =
     error_result ''http://a/'' ''timed out'' \<and>
   failed (check_akamai_cache (\<lambda>u. Inl ''timed out'') ''http://a/'' True) \<and>
   \<not> classified (check_akamai_cache (\<lambda>u. Inl ''timed out'') ''http://a/'' True)"
  using check_akamai_cache_total [of "\<lambda>u. Inl ''timed out''" "''http://a/''" True]
  by (simp add: failed_def classified_def error_result_def)

section \<open>The content signature scorer\<close>

lemma found_nonneg: "0 \<le> inc \<Longrightarrow> 0 \<le> fst st \<Longrightarrow> 0 \<le> fst (found c k xs inc st)"
  by (simp add: found_def)

lemma scan_headers_nonneg: "0 \<le> fst st \<Longrightarrow> 0 \<le> fst (scan_headers hs st)"
  by (induction hs arbitrary: st) auto

text \<open>
  The result of \<^verbatim>\<open>detect_aem\<close> is the wrap-up of lines 322 to 331 applied to a state
  whose confidence is not negative.
\<close>

lemma detect_aem_shape:
  "\<exists>s. detect_aem response =
          (3 / 10 \<le> min (fst s) 1, min (fst s) 1, filter (\<lambda>(k, v). v \<noteq> []) (snd s)) \<and>
        0 \<le> fst s"
  unfolding detect_aem_def Let_def
  apply (rule exI, rule conjI, rule refl)
  apply (intro found_nonneg scan_headers_nonneg)
  apply simp_all
  done

lemma fst_found: "fst (found c k xs inc st) = fst st + inc_if c inc"
  by (simp add: found_def inc_if_def)

lemma fst_scan_headers:
  "fst (scan_headers hs st) = fst st + sum_list (map header_increment hs)"
  by (induction hs arbitrary: st) (auto simp: header_increment_def)

text \<open>
  C5, as amended: the confidence is the sum, capped at 1, of one increment for each of
  the seventeen pattern checks that matched, however many matches the pattern has, and
  of one increment for every matching header. A category fed by several checks
  (\<^verbatim>\<open>html_classes\<close> by three, \<^verbatim>\<open>javascript_paths\<close> by five) can so receive several
  increments, and \<^verbatim>\<open>headers\<close> receives one for each matching header.
\<close>

theorem detect_aem_increments:
  "fst (snd (detect_aem response)) =
     min (sum_list (map (\<lambda>(c, inc). inc_if c inc) (pattern_checks response)) +
          sum_list (map header_increment
            (map (\<lambda>(k, v). (lower k, v)) (resp_headers response)))) 1"
  unfolding detect_aem_def pattern_checks_def Let_def
  by (simp only: fst_conv snd_conv fst_found fst_scan_headers list.map sum_list.Cons
        sum_list.Nil prod.case add_0 add_0_right ac_simps)

text \<open>
  C5 as the specification states it fails. With two \<^verbatim>\<open>X-AEM\<close> headers and nothing else
  the only category with evidence is \<^verbatim>\<open>headers\<close> and the confidence is two increments
  of 0.3; with the class attribute \<^verbatim>\<open>cq-a aem-b\<close> the only category is
  \<^verbatim>\<open>html_classes\<close> and the confidence is two increments of 0.25.
\<close>

theorem category_increment_counterexample:
  "snd (snd (detect_aem two_aem_headers)) = [(''headers'', [''x-aem-a: 1'', ''x-aem-b: 2''])] \<and>
   fst (snd (detect_aem two_aem_headers)) = 3 / 10 + 3 / 10 \<and>
   snd (snd (detect_aem two_class_names)) = [(''html_classes'', [''cq-a'', ''aem-b''])] \<and>
   fst (snd (detect_aem two_class_names)) = 1 / 4 + 1 / 4"
  by code_simp

text \<open>
  C9: the confidence returned by \<^verbatim>\<open>detect_aem\<close> lies between 0 and 1, whatever
  matches.
\<close>

theorem detect_aem_confidence_range:
  "0 \<le> fst (snd (detect_aem response)) \<and> fst (snd (detect_aem response)) \<le> 1"
proof -
  obtain s where "detect_aem response =
      (3 / 10 \<le> min (fst s) 1, min (fst s) 1, filter (\<lambda>(k, v). v \<noteq> []) (snd s))"
    and "0 \<le> fst s"
    using detect_aem_shape by blast
  then show ?thesis by simp
qed

text \<open>
  C10: no category of the evidence returned by \<^verbatim>\<open>detect_aem\<close> has an empty list.
\<close>

theorem detect_aem_no_empty_category:
  "\<forall>(k, v) \<in> set (snd (snd (detect_aem response))). v \<noteq> []"
proof -
  obtain s where "detect_aem response =
      (3 / 10 \<le> min (fst s) 1, min (fst s) 1, filter (\<lambda>(k, v). v \<noteq> []) (snd s))"
    using detect_aem_shape by blast
  then show ?thesis by auto
qed

text \<open>
  A response with no header, an empty body and the URL \<^verbatim>\<open>/content/a\<close>: one category is
  left in the evidence, the seven others are gone.
\<close>

theorem detect_aem_no_empty_category_witness:
  "snd (snd (detect_aem
     \<lparr>resp_status_code = 200, resp_headers = [], resp_text = [], resp_url = ''/content/a''\<rparr>)) =
     [(''url_patterns'', [''/content/ in URL''])]"
proof -
  have e: "snd (snd (detect_aem
     \<lparr>resp_status_code = 200, resp_headers = [], resp_text = [], resp_url = ''/content/a''\<rparr>)) =
     [(''url_patterns'', [''/content/ in URL''])]"
    by code_simp
  show ?thesis
    using e detect_aem_no_empty_category
      [of "\<lparr>resp_status_code = 200, resp_headers = [], resp_text = [], resp_url = ''/content/a''\<rparr>"]
    by simp
qed

text \<open>
  C6: the code does not do what the claim and its own comment
  (\<^verbatim>\<open># Keep original case for evidence\<close>) say. \<^verbatim>\<open>original_html\<close> is never read:
  every snippet comes from the lower-cased copy of the body. For the body
  \<^verbatim>\<open><div class="CQ-Foo">\<close> the evidence is \<^verbatim>\<open>cq-foo\<close>, which does not occur in the body,
  while \<^verbatim>\<open>CQ-Foo\<close> does.
\<close>

theorem detect_aem_lower_case_evidence:
  "snd (snd (detect_aem mixed_case_class)) = [(''html_classes'', [''cq-foo''])] \<and>
   contains ''CQ-Foo'' (resp_text mixed_case_class) \<and>
   \<not> contains ''cq-foo'' (resp_text mixed_case_class)"
  by code_simp

section \<open>The run and its summary\<close>

text \<open>\<^verbatim>\<open>test_sitemap\<close> never reads the configuration keys of the request.\<close>

lemma test_sitemap_ignores_configuration:
  "test_sitemap parse_sitemap get
     (data\<lparr>req_batch_size := b, req_batch_delay := d, req_max_urls := m\<rparr>) =
   test_sitemap parse_sitemap get data"
  by (simp add: test_sitemap_def)

text \<open>
  C4: the code does not reject an invalid configuration. For the request with
  \<^verbatim>\<open>batch_size\<close> 0, a sitemap of one URL and a fetch that times out, the run fetches the
  sitemap, probes the URL with the module's batch size and answers with status 200,
  where the claim and \<^verbatim>\<open>test_invalid_batch_size\<close> expect status 400 and no network
  activity.
\<close>

theorem test_sitemap_zero_batch_size:
  "fst (test_sitemap (\<lambda>u. Inr [''https://example.com/page1'']) (\<lambda>u. Inl ''timed out'')
          zero_batch_request) =
     [FetchSitemap ''https://example.com/sitemap.xml'', Dispatch [''https://example.com/page1'']] \<and>
   fst (snd (test_sitemap (\<lambda>u. Inr [''https://example.com/page1'']) (\<lambda>u. Inl ''timed out'')
          zero_batch_request)) = 200"
  by code_simp

lemma count_where_length: "count_where P xs = int (length (filter P xs))"
  by (induction xs) (simp_all add: count_where_def)

lemma filter_disjoint_length:
  "(\<And>x. \<not> (P x \<and> Q x)) \<Longrightarrow> length (filter P xs) + length (filter Q xs) \<le> length xs"
  by (induction xs) auto

lemma py_round2_0: "py_round2 0 = 0"
  by (simp add: py_round2_def)

text \<open>
  C7: for every result set, the hits of the summary are the results whose verdict
  contains \<^verbatim>\<open>HIT\<close>, the cacheable total is the total less the not cacheable results and
  the errors, and it is never negative. The hit ratio is the hits divided by the
  cacheable total, times 100, rounded to two decimals, when the cacheable total is
  positive, and 0 when it is 0. The floats of the code are rational numbers here.
\<close>

theorem summarize_hit_ratio:
  "s_cache_hits (summarize results) = hits_of results \<and>
   s_total_urls (summarize results) - s_not_cacheable (summarize results)
     - s_errors (summarize results) = cacheable_total_of results \<and>
   0 \<le> cacheable_total_of results \<and>
   (0 < cacheable_total_of results \<longrightarrow>
      s_cache_hit_ratio (summarize results) =
        py_round2 (of_int (hits_of results) / of_int (cacheable_total_of results) * 100)) \<and>
   (cacheable_total_of results = 0 \<longrightarrow> s_cache_hit_ratio (summarize results) = 0)"
proof -
  have "length (filter (\<lambda>r. r_cache_hit r = ''NOT_CACHEABLE'') results)
      + length (filter (\<lambda>r. r_cache_hit r = ''ERROR'') results) \<le> length results"
    by (rule filter_disjoint_length) auto
  then have "0 \<le> cacheable_total_of results"
    by (simp add: cacheable_total_of_def)
  then show ?thesis
    by (simp add: summarize_def Let_def count_where_length hits_of_def cacheable_total_of_def
        py_round2_0)
qed

text \<open>
  The mixed result set has 6 hits, 3 of them confirmed and 3 inferred, a cacheable total
  of 8 and a hit ratio of 75; a result set with nothing cacheable has a hit ratio of 0.
\<close>

theorem summarize_hit_ratio_witness:
  "0 < cacheable_total_of mixed_results \<and> hits_of mixed_results = 6 \<and>
   cacheable_total_of mixed_results = 8 \<and>
   s_confirmed_hits (summarize mixed_results) = 3 \<and>
   s_inferred_hits (summarize mixed_results) = 3 \<and>
   s_cache_hit_ratio (summarize mixed_results) = 75 \<and>
   cacheable_total_of [verdict_result ''NOT_CACHEABLE'', verdict_result ''ERROR''] = 0 \<and>
   s_cache_hit_ratio (summarize [verdict_result ''NOT_CACHEABLE'', verdict_result ''ERROR'']) = 0"
proof -
  have a: "cacheable_total_of mixed_results = 8" by code_simp
  have b: "hits_of mixed_results = 6" by code_simp
  have c: "cacheable_total_of [verdict_result ''NOT_CACHEABLE'', verdict_result ''ERROR''] = 0"
    by code_simp
  have d: "s_confirmed_hits (summarize mixed_results) = 3" by code_simp
  have e: "s_inferred_hits (summarize mixed_results) = 3" by code_simp
  have f: "py_round2 (6 / 8 * 100) = 75" by (simp add: py_round2_def)
  show ?thesis
    using a b c d e f summarize_hit_ratio[of mixed_results]
      summarize_hit_ratio[of "[verdict_result ''NOT_CACHEABLE'', verdict_result ''ERROR'']"]
    by simp
qed

section \<open>The batch scheduler\<close>

text \<open>
  The equations of \<open>chunks\<close> and \<open>range_up\<close> rewrite a call into an expression with another
  call; they are applied by hand.
\<close>

declare chunks.simps [simp del] range_up.simps [simp del]

lemma chunks_Nil: "chunks b [] = []"
  by (subst chunks.simps) simp

lemma chunks_Nil_iff: "0 < b \<Longrightarrow> chunks b xs = [] \<longleftrightarrow> xs = []"
  by (subst chunks.simps) simp

lemma chunks_step:
  "0 < b \<Longrightarrow> xs \<noteq> [] \<Longrightarrow> chunks b xs = take b xs # chunks b (drop b xs)"
  by (subst chunks.simps) simp

lemma paced_Cons:
  "paced d (g # gs) = Dispatch g # (if gs = [] then [] else Sleep d # paced d gs)"
  by (cases gs) simp_all

lemma concat_chunks: "0 < b \<Longrightarrow> concat (chunks b xs) = xs"
proof (induction b xs rule: chunks.induct)
  case (1 b xs)
  show ?case
  proof (cases "xs = []")
    case True
    then show ?thesis by (simp add: chunks_Nil)
  next
    case False
    then show ?thesis using 1 by (simp add: chunks_step)
  qed
qed

lemma chunk_sizes: "0 < b \<Longrightarrow> g \<in> set (chunks b xs) \<Longrightarrow> 0 < length g \<and> length g \<le> b"
proof (induction b xs rule: chunks.induct)
  case (1 b xs)
  show ?case
  proof (cases "xs = []")
    case True
    then show ?thesis using 1(3) by (simp add: chunks_Nil)
  next
    case False
    then show ?thesis using 1 by (auto simp: chunks_step)
  qed
qed

lemma chunk_full: "0 < b \<Longrightarrow> g \<in> set (butlast (chunks b xs)) \<Longrightarrow> length g = b"
proof (induction b xs rule: chunks.induct)
  case (1 b xs)
  show ?case
  proof (cases "xs = []")
    case True
    then show ?thesis using 1(3) by (simp add: chunks_Nil)
  next
    case False
    show ?thesis
    proof (cases "drop b xs = []")
      case True
      then show ?thesis using 1(2,3) False by (simp add: chunks_step chunks_Nil)
    next
      case nonempty: False
      then have ne: "chunks b (drop b xs) \<noteq> []" using 1(2) by (simp add: chunks_Nil_iff)
      have "g = take b xs \<or> g \<in> set (butlast (chunks b (drop b xs)))"
        using 1(2,3) False ne by (simp add: chunks_step)
      moreover have "length (take b xs) = b" using nonempty by simp
      ultimately show ?thesis using 1(1)[OF _ 1(2)] 1(2) False by auto
    qed
  qed
qed

lemma dispatched_paced: "dispatched (paced d gs) = gs"
  by (induction d gs rule: paced.induct) simp_all

lemma sleeps_paced: "length (filter is_sleep (paced d gs)) = length gs - 1"
  by (induction d gs rule: paced.induct) simp_all



lemma div_one_more: "0 < b \<Longrightarrow> 0 < n \<Longrightarrow> n \<le> b \<Longrightarrow> (n + b - 1) div b = (1::nat)"
proof -
  assume b: "0 < b" and n: "0 < n" and le: "n \<le> b"
  have e: "n + b - 1 = b + (n - 1)" using n by arith
  have lt: "n - 1 < b" using n le by arith
  have "(b + (n - 1)) div b = (n - 1) div b + 1" using b by simp
  also have "\<dots> = 1" using lt by simp
  finally show ?thesis using e by (simp only:)
qed

lemma div_add_one: "0 < b \<Longrightarrow> (b + m) div b = Suc (m div b)" for b m :: nat
  by simp

lemma div_step: "0 < b \<Longrightarrow> 0 < n \<Longrightarrow> (n + b - 1) div b = Suc ((n - 1) div b)" for b n :: nat
proof -
  assume b: "0 < b" and n: "0 < n"
  have e: "n + b - 1 = b + (n - 1)" using n by arith
  show ?thesis by (simp only: e div_add_one[OF b])
qed

lemma length_chunks: "0 < b \<Longrightarrow> length (chunks b xs) = (length xs + b - 1) div b"
proof (induction b xs rule: chunks.induct)
  case (1 b xs)
  show ?case
  proof (cases "xs = []")
    case True
    have "(b - 1) div b = 0" using 1(2) by simp
    then show ?thesis using True by (simp add: chunks_Nil)
  next
    case False
    then have len: "0 < length xs" by simp
    have ih: "length (chunks b (drop b xs)) = (length (drop b xs) + b - 1) div b"
      using 1 False by simp
    have c: "length (chunks b xs) = Suc (length (chunks b (drop b xs)))"
      using False 1(2) by (simp add: chunks_step)
    show ?thesis
    proof (cases "length xs \<le> b")
      case True
      then have "chunks b (drop b xs) = []" by (simp add: chunks_Nil)
      then have "length (chunks b xs) = 1" using c by simp
      then show ?thesis using div_one_more[OF 1(2) len True] by (simp only:)
    next
      case long: False
      then have "length (drop b xs) + b - 1 = length xs - 1" by simp
      then have "length (chunks b xs) = Suc ((length xs - 1) div b)"
        using c ih by (simp only:)
      then show ?thesis using div_step[OF 1(2) len] by (simp only:)
    qed
  qed
qed

text \<open>
  The loop, started at index \<open>i\<close>, dispatches the groups of the URLs from \<open>i\<close> on, with a
  pause between two groups, and probes every one of these URLs.
\<close>

lemma run_batches_range:
  "n = int (length urls) \<Longrightarrow> 0 < b \<Longrightarrow> 0 \<le> d \<Longrightarrow> 0 \<le> i \<Longrightarrow>
   run_batches get ca b d urls (range_up i n b) evs results =
     (evs @ paced d (chunks (nat b) (drop (nat i) urls)),
      Inr (results @ map (\<lambda>url. check_akamai_cache get url ca) (drop (nat i) urls)))"
proof (induction i n b arbitrary: evs results rule: range_up.induct)
  case (1 i n b)
  show ?case
  proof (cases "i < n")
    case False
    then have "range_up i n b = []" by (subst range_up.simps) simp
    moreover have "drop (nat i) urls = []" using False 1(2) by simp
    ultimately show ?thesis by (simp add: chunks_Nil)
  next
    case True
    have r: "range_up i n b = i # range_up (i + b) n b"
      using True 1(3) by (subst range_up.simps) simp
    have ne: "drop (nat i) urls \<noteq> []" using True 1(2,5) by simp
    have dd: "drop (nat b) (drop (nat i) urls) = drop (nat (i + b)) urls"
      using 1(3,5) by (simp add: nat_add_distrib add.commute)
    have c: "chunks (nat b) (drop (nat i) urls) =
        take (nat b) (drop (nat i) urls) # chunks (nat b) (drop (nat (i + b)) urls)"
      using ne 1(3) dd by (simp add: chunks_step)
    have e: "chunks (nat b) (drop (nat (i + b)) urls) = [] \<longleftrightarrow> \<not> i + b < n"
      using 1(2,3,5) by (auto simp: chunks_Nil_iff)
    have m: "map f (take (nat b) (drop (nat i) urls)) @ map f (drop (nat (i + b)) urls) =
        map f (drop (nat i) urls)" for f :: "string \<Rightarrow> probe_result"
      by (metis dd append_take_drop_id map_append)
    have ih: "run_batches get ca b d urls (range_up (i + b) n b) evs' results' =
        (evs' @ paced d (chunks (nat b) (drop (nat (i + b)) urls)),
         Inr (results' @ map (\<lambda>url. check_akamai_cache get url ca) (drop (nat (i + b)) urls)))"
      for evs' results'
      using 1(1)[of evs' results'] True 1(2,3,4,5) by simp
    show ?thesis
    proof (cases "i + b < n")
      case True
      then show ?thesis using r c e m ih 1(2,4)
        by (simp add: Let_def paced_Cons)
    next
      case False
      then show ?thesis using r c e m ih 1(2)
        by (simp add: Let_def paced_Cons)
    qed
  qed
qed

text \<open>
  C8: for every URL list and every positive batch size \<open>b\<close> (and a delay that is not
  negative), the scheduler dispatches the consecutive groups of \<open>b\<close> URLs, the last one
  possibly smaller and none empty, and probes every URL. The groups together are the
  list, there are \<open>\<lceil>n / b\<rceil>\<close> of them, and a pause follows every group except the last:
  the number of pauses is the number of groups less one.
\<close>

theorem schedule_batches:
  assumes "0 < b" and "0 \<le> d"
  shows "schedule get check_aem b d urls =
           (paced d (chunks (nat b) urls),
            Inr (map (\<lambda>url. check_akamai_cache get url check_aem) urls)) \<and>
         concat (chunks (nat b) urls) = urls \<and>
         length (chunks (nat b) urls) = (length urls + nat b - 1) div nat b \<and>
         (\<forall>g \<in> set (chunks (nat b) urls). 0 < length g \<and> length g \<le> nat b) \<and>
         (\<forall>g \<in> set (butlast (chunks (nat b) urls)). length g = nat b) \<and>
         dispatched (fst (schedule get check_aem b d urls)) = chunks (nat b) urls \<and>
         length (filter is_sleep (fst (schedule get check_aem b d urls))) =
           length (chunks (nat b) urls) - 1"
proof -
  have nb: "0 < nat b" using assms(1) by simp
  have "schedule get check_aem b d urls =
      run_batches get check_aem b d urls (range_up 0 (int (length urls)) b) [] []"
    using assms(1) by (simp add: schedule_def py_range_def)
  also have "\<dots> = (paced d (chunks (nat b) urls),
       Inr (map (\<lambda>url. check_akamai_cache get url check_aem) urls))"
    using run_batches_range[of "int (length urls)" urls b d 0 get check_aem "[]" "[]"] assms
    by simp
  finally have s: "schedule get check_aem b d urls =
      (paced d (chunks (nat b) urls),
       Inr (map (\<lambda>url. check_akamai_cache get url check_aem) urls))" .
  have a: "concat (chunks (nat b) urls) = urls" using nb by (rule concat_chunks)
  have l: "length (chunks (nat b) urls) = (length urls + nat b - 1) div nat b"
    using nb by (rule length_chunks)
  have z: "\<forall>g \<in> set (chunks (nat b) urls). 0 < length g \<and> length g \<le> nat b"
    using nb chunk_sizes by blast
  have f: "\<forall>g \<in> set (butlast (chunks (nat b) urls)). length g = nat b"
    using nb chunk_full by blast
  have p: "dispatched (fst (schedule get check_aem b d urls)) = chunks (nat b) urls"
    by (simp only: s fst_conv dispatched_paced)
  have q: "length (filter is_sleep (fst (schedule get check_aem b d urls))) =
      length (chunks (nat b) urls) - 1"
    by (simp only: s fst_conv sleeps_paced)
  show ?thesis using s a l z f p q by (intro conjI)
qed

text \<open>
  Twenty-five URLs give 9 groups and 8 pauses with batch size 3, and 3 groups and 2 pauses
  with batch size 10.
\<close>

theorem schedule_batches_witness:
  "(0::int) < 3 \<and> (0::rat) \<le> 1 \<and>
   length (dispatched (fst (schedule (\<lambda>u. Inl ''timed out'') False 3 1 urls25))) = 9 \<and>
   length (filter is_sleep (fst (schedule (\<lambda>u. Inl ''timed out'') False 3 1 urls25))) = 8 \<and>
   length (dispatched (fst (schedule (\<lambda>u. Inl ''timed out'') False 10 1 urls25))) = 3 \<and>
   length (filter is_sleep (fst (schedule (\<lambda>u. Inl ''timed out'') False 10 1 urls25))) = 2 \<and>
   length urls25 = 25 \<and> length (chunks 3 urls25) = 9 \<and> length (chunks 10 urls25) = 3"
proof -
  have h1: "(0::int) < 3" and h2: "(0::rat) \<le> 1" and h3: "(0::int) < 10" by simp_all
  have n: "length urls25 = 25" by (simp add: urls25_def)
  have a: "length (dispatched (fst (schedule (\<lambda>u. Inl ''timed out'') False 3 1 urls25))) = 9"
    by code_simp
  have b: "length (filter is_sleep (fst (schedule (\<lambda>u. Inl ''timed out'') False 3 1 urls25))) = 8"
    by code_simp
  have c: "length (dispatched (fst (schedule (\<lambda>u. Inl ''timed out'') False 10 1 urls25))) = 3"
    by code_simp
  have d: "length (filter is_sleep (fst (schedule (\<lambda>u. Inl ''timed out'') False 10 1 urls25))) = 2"
    by code_simp
  show ?thesis
    using n a b c d
      schedule_batches[OF h1 h2, of "\<lambda>u. Inl ''timed out''" False urls25]
      schedule_batches[OF h3 h2, of "\<lambda>u. Inl ''timed out''" False urls25]
    by simp
qed

end
